theory Spec2Isabelle
  imports Main "HOL-Library.AList"
begin

section \<open>Strings\<close>

text \<open>
  Python strings are modelled as \<open>string\<close>. Language codes, stream type names and ids are
  ASCII, and on ASCII \<open>str.lower\<close> and \<open>str.casefold\<close> agree: both map \<open>A..Z\<close> to
  \<open>a..z\<close> and leave every other character alone.
\<close>

definition lower_char :: "char \<Rightarrow> char" where
  "lower_char c =
     (case map_of (zip ''ABCDEFGHIJKLMNOPQRSTUVWXYZ'' ''abcdefghijklmnopqrstuvwxyz'') c of
        Some d \<Rightarrow> d
      | None \<Rightarrow> c)"

definition str_lower :: "string \<Rightarrow> string" where
  "str_lower s = map lower_char s"

text \<open>The characters \<open>str.strip()\<close> removes, within ASCII.\<close>

definition is_space :: "char \<Rightarrow> bool" where
  "is_space c = (c \<in> set [CHR '' '', CHR 0x09, CHR 0x0A, CHR 0x0B, CHR 0x0C, CHR 0x0D,
                             CHR 0x1C, CHR 0x1D, CHR 0x1E, CHR 0x1F])"

definition strip :: "string \<Rightarrow> string" where
  "strip s = rev (dropWhile is_space (rev (dropWhile is_space s)))"

text \<open>\<open>s.endswith(suffix)\<close>.\<close>

definition endswith :: "string \<Rightarrow> string \<Rightarrow> bool" where
  "endswith s suffix = (length suffix \<le> length s \<and> drop (length s - length suffix) s = suffix)"


section \<open>The version table\<close>

text \<open>
  A version descriptor of \<open><type>_metadata.versions\<close>: the fields the extractor reads.
  \<open>guid = None\<close> stands for a missing or null \<open>guid\<close>, \<open>audio_locales = []\<close> for a
  missing or empty \<open>audio_locales\<close>, \<open>audio_locale = None\<close> for a missing or null
  \<open>audio_locale\<close>.
\<close>

record version =
  guid :: "string option"
  audio_locales :: "string list"
  audio_locale :: "string option"

text \<open>\<open>CrunchyrollBaseIE._DEFAULT_LANG\<close>.\<close>

definition DEFAULT_LANG :: string where
  "DEFAULT_LANG = ''@@default''"

text \<open>\<open>lang_formatter = lambda v: v.casefold().strip()\<close>.\<close>

definition lang_formatter :: "string \<Rightarrow> string" where
  "lang_formatter v = strip (str_lower v)"

text \<open>
  \<open>_get_audio_langs_from_data\<close>. The result is a Python set; it is modelled as a list
  without repetitions, and nothing below depends on the order in which the set is
  iterated. The singular field goes through \<open>wrap_in_list = lambda v: v and [v]\<close>, so
  an \<open>audio_locale\<close> that formats to the empty string adds nothing.
\<close>

definition get_audio_langs_from_data :: "version \<Rightarrow> string list" where
  "get_audio_langs_from_data data =
     remdups (map lang_formatter (audio_locales data) @
              (case audio_locale data of
                 None \<Rightarrow> []
               | Some v \<Rightarrow> (if lang_formatter v = [] then [] else [lang_formatter v])))"

text \<open>
  A row of the table is \<open>(vid, lang)\<close>: \<open>vid\<close> is the value of \<open>version.get('guid')\<close>
  (a string or \<open>None\<close>), \<open>lang\<close> is a language code, \<open>None\<close> for an unknown language,
  or the default sentinel.
\<close>

type_synonym row = "string option \<times> string option"

text \<open>Python truthiness of a value that is a string or \<open>None\<close>.\<close>

definition truthy_str :: "string option \<Rightarrow> bool" where
  "truthy_str v = (v \<noteq> None \<and> v \<noteq> Some [])"

text \<open>
  The rows one descriptor contributes: the body of the two comprehensions of
  \<open>_get_responses_for_langs\<close> for a single \<open>version\<close>,
  \<open>(vid, lang) ... if vid for lang in (langs or [None])\<close>.
\<close>

definition version_rows :: "version \<Rightarrow> row list" where
  "version_rows v =
     (let vid = guid v; langs = get_audio_langs_from_data v in
      if truthy_str vid
      then map (\<lambda>lang. (vid, lang)) (if langs = [] then [None] else map Some langs)
      else [])"

text \<open>\<open>lang_table\<close> as it is passed to \<open>keep_table_matches\<close>.\<close>

definition lang_table :: "string \<Rightarrow> version list \<Rightarrow> row list" where
  "lang_table internal_id versions =
     concat (map version_rows versions) @ [(Some internal_id, Some DEFAULT_LANG)]"


section \<open>Python values, messages and errors\<close>

text \<open>
  The values a result or a format entry binds to its keys. Numbers are integers here
  (\<open>True\<close> and \<open>False\<close> are the integers 1 and 0, as Python compares them); lists and
  dicts are the structured values.
\<close>

datatype pyval =
  PNone
  | PInt int
  | PStr string
  | PList "pyval list"
  | PDict "(string \<times> pyval) list"

type_synonym pydict = "string \<rightharpoonup> pyval"

text \<open>
  What \<open>to_screen\<close> and \<open>report_warning\<close> print. Both are called with
  \<open>only_once=True\<close>: a message that was printed before is not printed again.
\<close>

datatype message =
  VersionNotFound "string option"
  | HardsubHint
  | UnknownStreamType string

definition print_once :: "message \<Rightarrow> message list \<Rightarrow> message list" where
  "print_once m log = (if m \<in> set log then log else log @ [m])"

datatype error =
  ExtractorError string
  | KeyError string
  | AttributeError string


section \<open>Format extraction\<close>

text \<open>
  A stream descriptor of the manifest. \<open>hardsub_locale = []\<close> stands for a missing,
  null or empty \<open>hardsub_locale\<close>, which \<open>stream.get('hardsub_locale') or ''\<close> and
  \<open>format_field\<close> treat alike; \<open>url = []\<close> for a missing, null or empty \<open>url\<close>, which
  the filter \<open>lambda _, v: v['url']\<close> rejects alike.
\<close>

record stream =
  hardsub_locale :: string
  url :: string

text \<open>
  The stream manifest: the items of \<open>stream_response['streams']\<close>, then those of
  \<open>stream_response['data'][0]\<close>, each a stream type with its descriptors in order;
  and the two places \<open>audio_locale\<close> is read from.
\<close>

record stream_response =
  streams :: "(string \<times> stream list) list"
  data0 :: "(string \<times> stream list) list"
  resp_audio_locale :: "string option"
  meta_audio_locale :: "string option"

type_synonym fmt = pydict

text \<open>
  The collaborators of \<open>_extract_formats\<close> that live outside this file, taken as
  parameters: the three manifest resolvers of \<open>InfoExtractor\<close> (arguments: the stream
  url and the format id), and the format id
  \<open>join_nonempty(stream_type, format_field(stream, 'hardsub_locale', 'hardsub-%s'))\<close>
  as a function of the stream type and the hardsub locale.
\<close>

record extractors =
  extract_m3u8_formats :: "string \<Rightarrow> string \<Rightarrow> fmt list"
  m3u8_meta_format :: "string \<Rightarrow> string \<Rightarrow> fmt"
  extract_mpd_formats :: "string \<Rightarrow> string \<Rightarrow> fmt list"
  format_id_of :: "string \<Rightarrow> string \<Rightarrow> string"

text \<open>A value of \<open>available_formats\<close>: \<open>(stream_type, format_id, hardsub_lang, url)\<close>.\<close>

type_synonym entry = "string \<times> string \<times> string \<times> string"

text \<open>\<open>self._configuration_arg('format') or ['adaptive_hls']\<close>.\<close>

definition requested_formats :: "string list \<Rightarrow> string list" where
  "requested_formats cfg_format = (if cfg_format = [] then [''adaptive_hls''] else cfg_format)"

text \<open>The body of the inner loop: \<open>available_formats[hardsub_lang] = (...)\<close>.\<close>

definition add_stream ::
  "extractors \<Rightarrow> string \<Rightarrow> stream \<Rightarrow> (string \<times> entry) list \<Rightarrow> (string \<times> entry) list" where
  "add_stream env stream_type s af =
     AList.update (hardsub_locale s)
       (stream_type, format_id_of env stream_type (hardsub_locale s), hardsub_locale s, url s) af"

text \<open>
  The two nested iterations that fill \<open>available_formats\<close>. The dict is an association list in
  insertion order: assigning to a key that is present replaces its value in place,
  assigning to a new key appends.
\<close>

definition available_formats ::
  "extractors \<Rightarrow> string list \<Rightarrow> stream_response \<Rightarrow> (string \<times> entry) list" where
  "available_formats env requested resp =
     fold (\<lambda>(stream_type, ss) af.
             if stream_type \<notin> set requested then af
             else fold (add_stream env stream_type) (filter (\<lambda>s. url s \<noteq> []) ss) af)
          (streams resp @ data0 resp) []"

text \<open>\<open>requested_hardsubs\<close>: the configured list, \<open>'none'\<close> replaced by the empty string.\<close>

definition requested_hardsubs :: "string list \<Rightarrow> string list" where
  "requested_hardsubs cfg_hardsub =
     map (\<lambda>val. if val = ''none'' then [] else val)
         (if cfg_hardsub = [] then [''none''] else cfg_hardsub)"

text \<open>The test \<open>'' in available_formats and 'all' not in requested_hardsubs\<close>.\<close>

definition restrict_to_requested :: "(string \<times> entry) list \<Rightarrow> string list \<Rightarrow> bool" where
  "restrict_to_requested af rh = ([] \<in> set (map fst af) \<and> ''all'' \<notin> set rh)"

text \<open>\<open>full_format_langs\<close>, a Python set, as the list of its elements.\<close>

definition full_format_langs :: "(string \<times> entry) list \<Rightarrow> string list \<Rightarrow> string list" where
  "full_format_langs af rh =
     (if restrict_to_requested af rh then rh else map (\<lambda>p. str_lower (fst p)) af)"

text \<open>
  \<open>traverse_obj(stream_response, ((None, 'meta'), 'audio_locale'), get_all=False)\<close>: the
  first of the two that is there.
\<close>

definition audio_locale_of :: "stream_response \<Rightarrow> string option" where
  "audio_locale_of resp =
     (case resp_audio_locale resp of Some l \<Rightarrow> Some l | None \<Rightarrow> meta_audio_locale resp)"

fun index_of :: "'a list \<Rightarrow> 'a \<Rightarrow> nat option" where
  "index_of [] y = None"
| "index_of (x # xs) y = (if x = y then Some 0 else map_option Suc (index_of xs y))"

text \<open>
  Modelled from the spec: \<open>qualities\<close> of \<open>yt_dlp.utils\<close>, which is not part of this
  file. The rank of an id is its position in the list it is given (the position of its
  first occurrence, counted from 0), and an id that is not in the list ranks lowest, below
  every position: \<open>-1\<close>.
\<close>

definition qualities :: "string list \<Rightarrow> string \<Rightarrow> int" where
  "qualities quality_ids qid = (case index_of quality_ids qid of Some i \<Rightarrow> int i | None \<Rightarrow> - 1)"

text \<open>
  \<open>hardsub_preference(hardsub_lang.lower())\<close> with
  \<open>hardsub_preference = qualities(requested_hardsubs[::-1])\<close>.
\<close>

definition hardsub_preference :: "string list \<Rightarrow> string \<Rightarrow> int" where
  "hardsub_preference rh hardsub_lang = qualities (rev rh) (str_lower hardsub_lang)"

definition pyval_of_str :: "string option \<Rightarrow> pyval" where
  "pyval_of_str v = (case v of None \<Rightarrow> PNone | Some s \<Rightarrow> PStr s)"

text \<open>The body of \<open>for f in adaptive_formats\<close>.\<close>

definition tag_format :: "string option \<Rightarrow> int \<Rightarrow> fmt \<Rightarrow> fmt" where
  "tag_format alocale q f =
     (let f' = (if f ''acodec'' \<noteq> Some (PStr ''none'')
                then f(''language'' \<mapsto> pyval_of_str alocale) else f)
      in f'(''quality'' \<mapsto> PInt q))"

text \<open>
  The \<open>if/elif/else\<close> on the stream type: the renditions of one entry before they are
  tagged, or \<open>None\<close> for an unknown stream type (a warning, then \<open>continue\<close>).
\<close>

fun adaptive_formats :: "extractors \<Rightarrow> string list \<Rightarrow> entry \<Rightarrow> fmt list option" where
  "adaptive_formats env full (stream_type, format_id, hardsub_lang, stream_url) =
     (if endswith stream_type ''hls'' then
        (if str_lower hardsub_lang \<in> set full
         then Some (extract_m3u8_formats env stream_url format_id)
         else Some [m3u8_meta_format env stream_url format_id])
      else if endswith stream_type ''dash'' then
        Some (extract_mpd_formats env stream_url format_id)
      else None)"

text \<open>One round of \<open>for ... in available_formats.values()\<close>.\<close>

fun format_step ::
  "extractors \<Rightarrow> string list \<Rightarrow> string option \<Rightarrow> string list \<Rightarrow> entry \<Rightarrow>
   fmt list \<times> message list \<Rightarrow> fmt list \<times> message list" where
  "format_step env full alocale rh (stream_type, format_id, hardsub_lang, stream_url)
     (formats, log) =
     (case adaptive_formats env full (stream_type, format_id, hardsub_lang, stream_url) of
        None \<Rightarrow> (formats, print_once (UnknownStreamType stream_type) log)
      | Some fs \<Rightarrow>
          (formats @ map (tag_format alocale (hardsub_preference rh hardsub_lang)) fs, log))"

text \<open>
  \<open>_extract_formats\<close>: the formats, and the messages after the call. \<open>cfg_format\<close> and
  \<open>cfg_hardsub\<close> are what \<open>self._configuration_arg\<close> returns for \<open>'format'\<close> and
  \<open>'hardsub'\<close> (the empty list when the option is not given).
\<close>

definition extract_formats ::
  "extractors \<Rightarrow> string list \<Rightarrow> string list \<Rightarrow> stream_response \<Rightarrow> message list \<Rightarrow>
   fmt list \<times> message list" where
  "extract_formats env cfg_format cfg_hardsub resp log =
     (let af = available_formats env (requested_formats cfg_format) resp;
          rh = requested_hardsubs cfg_hardsub;
          log' = (if restrict_to_requested af rh then print_once HardsubHint log else log);
          full = full_format_langs af rh;
          alocale = audio_locale_of resp
      in fold (format_step env full alocale rh) (map snd af) ([], log'))"


section \<open>Fetching the selected versions\<close>

text \<open>
  An object response, as far as \<open>_get_responses_for_langs\<close> reads it: its \<open>type\<close>, and
  for a key such as \<open>episode_metadata\<close> the \<open>versions\<close> list found under it (\<open>None\<close>
  when the key, or \<open>versions\<close> under it, is missing). A fetch answers \<open>Inr (Some r)\<close>
  for a response, \<open>Inr None\<close> for \<open>None\<close> (\<open>_call_api\<close> returns \<open>None\<close> on HTTP 404), and
  \<open>Inl e\<close> when it raises.
\<close>

record response =
  rtype :: "string option"
  metadata :: "string \<rightharpoonup> version list"

text \<open>
  \<open>versions = (default_meta and traverse_obj(default_meta, 'versions')) or []\<close> with
  \<open>default_meta = get_meta_from_response(default_response)\<close>.
\<close>

definition response_versions :: "response \<Rightarrow> version list" where
  "response_versions r =
     (case rtype r of
        None \<Rightarrow> []
      | Some object_type \<Rightarrow>
          (if object_type = [] then []
           else (case metadata r (object_type @ ''_metadata'') of
                   None \<Rightarrow> []
                 | Some versions \<Rightarrow> versions)))"

text \<open>
  The loop \<open>for vid in requested_ids\<close>. \<open>results\<close> is a dict, kept in insertion order.
  The assignment \<open>results[vid] = requested_response\<close> stands after the \<open>if/else\<close>, at
  the level of the loop body, so it is reached on every path.
\<close>

fun fetch_versions ::
  "(string option \<Rightarrow> error + response option) \<Rightarrow> string \<Rightarrow> response \<Rightarrow> string option list \<Rightarrow>
   (string option \<times> response option) list \<Rightarrow> message list \<Rightarrow>
   (error + (string option \<times> response option) list) \<times> message list" where
  "fetch_versions get_response_by_id internal_id default_response [] results log =
     (Inr results, log)"
| "fetch_versions get_response_by_id internal_id default_response (vid # vids) results log =
     (if vid = Some internal_id then
        fetch_versions get_response_by_id internal_id default_response vids
          (AList.update vid (Some default_response) results) log
      else
        (case get_response_by_id vid of
           Inl e \<Rightarrow> (Inl e, log)
         | Inr requested_response \<Rightarrow>
             fetch_versions get_response_by_id internal_id default_response vids
               (AList.update vid requested_response results)
               (if requested_response = None then print_once (VersionNotFound vid) log
                else log)))"

text \<open>
  \<open>_get_responses_for_langs\<close>. The selector lives outside this file; its
  \<open>keep_table_matches\<close> is a parameter, a function from the table to the list of
  requested ids.
\<close>

definition get_responses_for_langs ::
  "(row list \<Rightarrow> string option list) \<Rightarrow> (string option \<Rightarrow> error + response option) \<Rightarrow> string \<Rightarrow>
   message list \<Rightarrow> (error + (string option \<times> response option) list) \<times> message list" where
  "get_responses_for_langs keep_table_matches get_response_by_id internal_id log =
     (case get_response_by_id (Some internal_id) of
        Inl e \<Rightarrow> (Inl e, log)
      | Inr None \<Rightarrow>
          (Inl (ExtractorError (''No video with id '' @ internal_id @
                  '' could be found (possibly region locked?)'')), log)
      | Inr (Some default_response) \<Rightarrow>
          fetch_versions get_response_by_id internal_id default_response
            (keep_table_matches (lang_table internal_id (response_versions default_response)))
            [] log)"


section \<open>Merging the versions\<close>

text \<open>
  What \<open>extract_version\<close> returns: a dict. \<open>attributes\<close> holds every key but \<open>formats\<close> and
  \<open>subtitles\<close>; \<open>formats\<close> is the list under \<open>formats\<close>, or \<open>None\<close> when the dict has no
  such key (a url or playlist result); \<open>subtitles\<close> likewise, a dict from locale to
  tracks. \<open>_extract_version\<close> never binds either key to anything else.
\<close>

record result =
  attributes :: pydict
  formats :: "fmt list option"
  subtitles :: "pydict option"

text \<open>
  \<open>isinstance(value, typing.Hashable)\<close>: lists and dicts are not hashable. The keys are
  strings, which are.
\<close>

fun is_hashable :: "pyval \<Rightarrow> bool" where
  "is_hashable (PList xs) = False"
| "is_hashable (PDict kvs) = False"
| "is_hashable v = True"

text \<open>
  \<open>set(filter(is_attribute_hashable, d.items()))\<close>. The entries under \<open>formats\<close> and
  \<open>subtitles\<close> are a list and a dict, so they are never in this set.
\<close>

definition hashable_items :: "pydict \<Rightarrow> (string \<times> pyval) set" where
  "hashable_items d = {(key, val). d key = Some val \<and> is_hashable val}"

text \<open>
  \<open>version_differences = dict(version_as_set - result_as_set)\<close>, computed key by key: a
  pair of the version is kept when its value is hashable and the result does not hold the
  same pair.
\<close>

definition version_differences :: "pydict \<Rightarrow> pydict \<Rightarrow> pydict" where
  "version_differences version_fields result_fields =
     (\<lambda>key. case version_fields key of
              None \<Rightarrow> None
            | Some val \<Rightarrow>
                (if is_hashable val \<and> result_fields key \<noteq> Some val then Some val else None))"

text \<open>\<open>version.get('formats') or []\<close> and \<open>version.get('subtitles') or {}\<close>.\<close>

definition version_formats :: "result \<Rightarrow> fmt list" where
  "version_formats version = (case formats version of None \<Rightarrow> [] | Some fs \<Rightarrow> fs)"

definition version_subtitles :: "result \<Rightarrow> pydict" where
  "version_subtitles version = (case subtitles version of None \<Rightarrow> Map.empty | Some subs \<Rightarrow> subs)"

text \<open>
  The choice of the main response: \<open>responses.pop(internal_id, None)\<close>, and
  \<open>responses.popitem()\<close>, which removes the item inserted last, when that is falsy.
  A response is \<open>None\<close> or a non-empty dict, so it is falsy exactly when it is \<open>None\<close>.
  The result is the chosen item and the items left in \<open>responses\<close>.
\<close>

definition select_main ::
  "'k \<Rightarrow> ('k \<times> 'r option) list \<Rightarrow> error + ('k \<times> 'r option) \<times> ('k \<times> 'r option) list" where
  "select_main internal_id responses =
     (let version_response = (case map_of responses internal_id of Some r \<Rightarrow> r | None \<Rightarrow> None);
          rest = AList.delete internal_id responses
      in if version_response \<noteq> None then Inr ((internal_id, version_response), rest)
         else if rest = [] then Inl (KeyError ''popitem(): dictionary is empty'')
         else Inr (last rest, butlast rest))"

text \<open>
  The loop \<open>for version_id, version_response in responses.items()\<close>. \<open>result_fields\<close> are
  the attributes of the main result, of which \<open>result_as_set\<close> was taken before the loop;
  \<open>result_formats\<close> and \<open>result_subtitles\<close> are the list and the dict of the main result,
  which the loop extends.
\<close>

fun merge_versions ::
  "string \<Rightarrow> (string \<Rightarrow> 'k \<Rightarrow> 'r option \<Rightarrow> error + result) \<Rightarrow> pydict \<Rightarrow> ('k \<times> 'r option) list \<Rightarrow>
   fmt list \<Rightarrow> pydict \<Rightarrow> error + fmt list \<times> pydict" where
  "merge_versions lang extract_version result_fields [] result_formats result_subtitles =
     Inr (result_formats, result_subtitles)"
| "merge_versions lang extract_version result_fields ((version_id, version_response) # rest)
     result_formats result_subtitles =
     (case extract_version lang version_id version_response of
        Inl e \<Rightarrow> Inl e
      | Inr version \<Rightarrow>
          merge_versions lang extract_version result_fields rest
            (result_formats @
               map (\<lambda>version_format.
                      version_format ++ version_differences (attributes version) result_fields)
                   (version_formats version))
            (result_subtitles ++ version_subtitles version))"

text \<open>
  \<open>_extract_versions_and_merge_results\<close>. \<open>responses\<close> is a dict in insertion order;
  \<open>extract_version\<close> may raise.
\<close>

definition extract_versions_and_merge_results ::
  "string \<Rightarrow> 'k \<Rightarrow> ('k \<times> 'r option) list \<Rightarrow> (string \<Rightarrow> 'k \<Rightarrow> 'r option \<Rightarrow> error + result) \<Rightarrow>
   error + result" where
  "extract_versions_and_merge_results lang internal_id responses extract_version =
     (if length responses = 1 then
        (let (target_id, target_response) = hd responses
         in extract_version lang target_id target_response)
      else
        (case select_main internal_id responses of
           Inl e \<Rightarrow> Inl e
         | Inr ((version_id, version_response), rest) \<Rightarrow>
             (case extract_version lang version_id version_response of
                Inl e \<Rightarrow> Inl e
              | Inr result \<Rightarrow>
                  (case merge_versions lang extract_version (attributes result) rest
                          (version_formats result) (version_subtitles result) of
                     Inl e \<Rightarrow> Inl e
                   | Inr (result_formats, result_subtitles) \<Rightarrow>
                       Inr (result\<lparr>formats := Some result_formats,
                                   subtitles := Some result_subtitles\<rparr>)))))"

text \<open>
  The first statement of \<open>_extract_version\<close>, \<open>object_type = response.get('type')\<close>,
  raises \<open>AttributeError\<close> when \<open>response\<close> is \<open>None\<close>; \<open>transform\<close> stands for the rest of
  the function.
\<close>

definition extract_version ::
  "(string \<Rightarrow> string option \<Rightarrow> response \<Rightarrow> error + result) \<Rightarrow>
   string \<Rightarrow> string option \<Rightarrow> response option \<Rightarrow> error + result" where
  "extract_version transform lang internal_id response =
     (case response of
        None \<Rightarrow> Inl (AttributeError ''NoneType object has no attribute get'')
      | Some r \<Rightarrow> transform lang internal_id r)"

text \<open>
  \<open>CrunchyrollBetaIE._real_extract\<close>, from the requested ids on: the responses, the test
  \<open>if not responses\<close>, the merge.
\<close>

definition real_extract ::
  "(row list \<Rightarrow> string option list) \<Rightarrow> (string option \<Rightarrow> error + response option) \<Rightarrow>
   (string \<Rightarrow> string option \<Rightarrow> response \<Rightarrow> error + result) \<Rightarrow> string \<Rightarrow> string \<Rightarrow> message list \<Rightarrow>
   (error + result) \<times> message list" where
  "real_extract keep_table_matches get_response_by_id transform lang internal_id log =
     (case get_responses_for_langs keep_table_matches get_response_by_id internal_id log of
        (Inl e, log') \<Rightarrow> (Inl e, log')
      | (Inr responses, log') \<Rightarrow>
          (if responses = [] then
             (Inl (ExtractorError ''None of the requested audio languages were found''), log')
           else
             (extract_versions_and_merge_results lang (Some internal_id) responses
                (extract_version transform), log')))"


section \<open>Auxiliary notions for the statements\<close>

text \<open>
  The descriptors that pass both filters, in manifest order, each with its stream type:
  the stream type is requested and the delivery url is not empty.
\<close>

definition kept_streams :: "string list \<Rightarrow> stream_response \<Rightarrow> (string \<times> stream) list" where
  "kept_streams requested resp =
     concat (map (\<lambda>(stream_type, ss).
                    if stream_type \<in> set requested
                    then map (Pair stream_type) (filter (\<lambda>s. url s \<noteq> []) ss) else [])
                 (streams resp @ data0 resp))"

text \<open>The key and the value the code stores for one descriptor.\<close>

definition entry_of :: "extractors \<Rightarrow> string \<times> stream \<Rightarrow> string \<times> entry" where
  "entry_of env p =
     (hardsub_locale (snd p),
      (fst p, format_id_of env (fst p) (hardsub_locale (snd p)), hardsub_locale (snd p),
       url (snd p)))"


text \<open>The tagged renditions one entry of \<open>available_formats\<close> adds to \<open>formats\<close>.\<close>

fun renditions ::
  "extractors \<Rightarrow> string list \<Rightarrow> string option \<Rightarrow> string list \<Rightarrow> entry \<Rightarrow> fmt list" where
  "renditions env full alocale rh (stream_type, format_id, hardsub_lang, stream_url) =
     (case adaptive_formats env full (stream_type, format_id, hardsub_lang, stream_url) of
        None \<Rightarrow> []
      | Some fs \<Rightarrow> map (tag_format alocale (hardsub_preference rh hardsub_lang)) fs)"

text \<open>The values a list of formats binds to one key.\<close>

definition field_values :: "string \<Rightarrow> fmt list \<Rightarrow> pyval option list" where
  "field_values key fs = map (\<lambda>f. f key) fs"

text \<open>The formats of a version as they enter the merged list, stamped against the main result.\<close>

definition stamped_formats :: "result \<Rightarrow> result \<Rightarrow> fmt list" where
  "stamped_formats base version =
     map (\<lambda>version_format. version_format ++ version_differences (attributes version) (attributes base))
         (version_formats version)"


section \<open>Example inputs\<close>

text \<open>
  Resolvers for the examples: an HLS playlist with a video-only rendition and a rendition
  that declares no audio codec, the one-rendition stand-in built from the manifest url,
  and a DASH manifest with a video-only and an audio rendition. The format id is the
  stream type, followed by \<open>-hardsub-<locale>\<close> for a tagged stream.
\<close>

definition demo_extractors :: extractors where
  "demo_extractors = \<lparr>
     extract_m3u8_formats = (\<lambda>u fid.
        [[''format_id'' \<mapsto> PStr (fid @ ''-1''), ''acodec'' \<mapsto> PStr ''none''],
         [''format_id'' \<mapsto> PStr (fid @ ''-2'')]]),
     m3u8_meta_format = (\<lambda>u fid. [''format_id'' \<mapsto> PStr (fid @ ''-meta''), ''url'' \<mapsto> PStr u]),
     extract_mpd_formats = (\<lambda>u fid.
        [[''format_id'' \<mapsto> PStr (fid @ ''-video''), ''acodec'' \<mapsto> PStr ''none''],
         [''format_id'' \<mapsto> PStr (fid @ ''-audio''), ''acodec'' \<mapsto> PStr ''mp4a.40.2'']]),
     format_id_of = (\<lambda>t hl. if hl = [] then t else t @ ''-hardsub-'' @ hl) \<rparr>"

text \<open>A manifest with an untagged and a hardsubbed HLS stream and an untagged DASH stream.\<close>

definition demo_manifest :: stream_response where
  "demo_manifest = \<lparr>
     streams = [(''adaptive_hls'', [\<lparr>hardsub_locale = [], url = ''h0''\<rparr>,
                                   \<lparr>hardsub_locale = ''en-US'', url = ''h1''\<rparr>]),
                (''adaptive_dash'', [\<lparr>hardsub_locale = [], url = ''d0''\<rparr>])],
     data0 = [], resp_audio_locale = Some ''ja-JP'', meta_audio_locale = None \<rparr>"

text \<open>A manifest with an untagged and a hardsubbed DASH stream.\<close>

definition demo_dash_manifest :: stream_response where
  "demo_dash_manifest = \<lparr>
     streams = [(''adaptive_dash'', [\<lparr>hardsub_locale = [], url = ''d0''\<rparr>,
                                    \<lparr>hardsub_locale = ''en-US'', url = ''d1''\<rparr>])],
     data0 = [], resp_audio_locale = Some ''ja-JP'', meta_audio_locale = None \<rparr>"


text \<open>A manifest with an untagged and two hardsubbed HLS streams.\<close>

definition demo_hardsub_manifest :: stream_response where
  "demo_hardsub_manifest = \<lparr>
     streams = [(''adaptive_hls'', [\<lparr>hardsub_locale = [], url = ''h0''\<rparr>,
                                   \<lparr>hardsub_locale = ''en-US'', url = ''h1''\<rparr>,
                                   \<lparr>hardsub_locale = ''de-DE'', url = ''h2''\<rparr>])],
     data0 = [], resp_audio_locale = None, meta_audio_locale = Some ''ja-JP'' \<rparr>"


text \<open>
  Modelled from the spec: \<open>LangSelector.keep_table_matches\<close> of \<open>yt_dlp.utils\<close>, which is
  not part of this file, for a selector that consists of one exact language code: the ids
  of the rows whose language is that code, without repetitions, in first-seen order.
\<close>

definition keep_exact_matches :: "string \<Rightarrow> row list \<Rightarrow> string option list" where
  "keep_exact_matches code table =
     rev (remdups (rev (map fst (filter (\<lambda>r. snd r = Some code) table))))"

text \<open>
  An episode whose metadata lists one other version, in \<open>en-US\<close>, and a fetch that finds
  the episode itself and answers \<open>None\<close> for every other id (a region-locked version).
\<close>

definition demo_default_response :: response where
  "demo_default_response = \<lparr>
     rtype = Some ''episode'',
     metadata = [''episode_metadata'' \<mapsto>
       [\<lparr>guid = Some ''GX9UQE4GD'', audio_locales = [''en-US''], audio_locale = None\<rparr>]] \<rparr>"

definition demo_fetch :: "string option \<Rightarrow> error + response option" where
  "demo_fetch vid = (if vid = Some ''GY2P1Q98Y'' then Inr (Some demo_default_response) else Inr None)"

text \<open>
  Results for the examples of the merge: a response is the name of its audio language, and
  a version has some scalar attributes, a list of thumbnails, one format and one subtitle
  track under the locale \<open>en-US\<close>.
\<close>

definition demo_result :: "string \<Rightarrow> string \<Rightarrow> result" where
  "demo_result vid audio = \<lparr>
     attributes = [''id'' \<mapsto> PStr vid, ''title'' \<mapsto> PStr (''Episode 1 ('' @ audio @ '')''),
                   ''series'' \<mapsto> PStr ''Show'', ''thumbnails'' \<mapsto> PList [PStr audio]],
     formats = Some [[''format_id'' \<mapsto> PStr (''hls-'' @ audio)]],
     subtitles = Some [''en-US'' \<mapsto> PStr (''subtitles of '' @ vid)] \<rparr>"

definition demo_extract :: "string \<Rightarrow> string \<Rightarrow> string option \<Rightarrow> error + result" where
  "demo_extract lang vid r =
     (case r of
        None \<Rightarrow> Inl (AttributeError ''NoneType object has no attribute get'')
      | Some audio \<Rightarrow> Inr (demo_result vid audio))"

definition demo_responses :: "(string \<times> string option) list" where
  "demo_responses = [(''B'', Some ''en-US''), (''A'', Some ''ja-JP''), (''C'', Some ''de-DE'')]"


section \<open>Properties of the version table\<close>

lemma version_rows_ids: "r \<in> set (version_rows v) \<Longrightarrow> fst r = guid v \<and> truthy_str (guid v)"
  by (auto simp: version_rows_def Let_def split: if_splits)

text \<open>
  Claim C10. Building the table from a list of version descriptors: a descriptor whose
  id is missing (or empty, which Python's \<open>if vid\<close> rejects as well) contributes no
  row; a descriptor with an id and an empty language set
  contributes exactly one row, whose language is \<open>None\<close> (unknown); the row binding the
  requested id to the default sentinel is the last row; and every row has an id other
  than \<open>None\<close>.
\<close>

theorem lang_table_rows:
  "(\<not> truthy_str (guid v) \<longrightarrow>
      lang_table internal_id (vs1 @ v # vs2) = lang_table internal_id (vs1 @ vs2))
   \<and> (truthy_str (guid v) \<and> get_audio_langs_from_data v = [] \<longrightarrow>
      lang_table internal_id (vs1 @ v # vs2) =
        concat (map version_rows vs1) @ [(guid v, None)] @ lang_table internal_id vs2)
   \<and> last (lang_table internal_id versions) = (Some internal_id, Some DEFAULT_LANG)
   \<and> (\<forall>r \<in> set (lang_table internal_id versions). fst r \<noteq> None)"
proof -
  have a: "\<not> truthy_str (guid v) \<longrightarrow>
      lang_table internal_id (vs1 @ v # vs2) = lang_table internal_id (vs1 @ vs2)"
    by (simp add: lang_table_def version_rows_def)
  have b: "truthy_str (guid v) \<and> get_audio_langs_from_data v = [] \<longrightarrow>
      lang_table internal_id (vs1 @ v # vs2) =
        concat (map version_rows vs1) @ [(guid v, None)] @ lang_table internal_id vs2"
    by (simp add: lang_table_def version_rows_def)
  have c: "last (lang_table internal_id versions) = (Some internal_id, Some DEFAULT_LANG)"
    by (simp add: lang_table_def)
  have d: "\<forall>r \<in> set (lang_table internal_id versions). fst r \<noteq> None"
  proof
    fix r assume "r \<in> set (lang_table internal_id versions)"
    then consider "r = (Some internal_id, Some DEFAULT_LANG)"
      | v' where "v' \<in> set versions" "r \<in> set (version_rows v')"
      by (auto simp: lang_table_def)
    then show "fst r \<noteq> None"
    proof cases
      case 1
      then show ?thesis by simp
    next
      case 2
      then show ?thesis using version_rows_ids [of r v'] by (auto simp: truthy_str_def)
    qed
  qed
  from a b c d show ?thesis by blast
qed

theorem lang_table_rows_witness:
  "lang_table ''GY2P1Q98Y''
     [\<lparr>guid = None, audio_locales = [''ja-JP''], audio_locale = None\<rparr>,
      \<lparr>guid = Some ''GRDQCE7WN'', audio_locales = [], audio_locale = None\<rparr>,
      \<lparr>guid = Some ''GX9UQE4GD'', audio_locales = [], audio_locale = Some '' en-US ''\<rparr>]
   = [(Some ''GRDQCE7WN'', None), (Some ''GX9UQE4GD'', Some ''en-us''),
      (Some ''GY2P1Q98Y'', Some ''@@default'')]
   \<and> fst (hd (lang_table ''GY2P1Q98Y''
         [\<lparr>guid = None, audio_locales = [''ja-JP''], audio_locale = None\<rparr>,
          \<lparr>guid = Some ''GRDQCE7WN'', audio_locales = [], audio_locale = None\<rparr>,
          \<lparr>guid = Some ''GX9UQE4GD'', audio_locales = [], audio_locale = Some '' en-US ''\<rparr>]))
        \<noteq> None"
proof -
  let ?v0 = "\<lparr>guid = None, audio_locales = [''ja-JP''], audio_locale = None\<rparr>"
  let ?v1 = "\<lparr>guid = Some ''GRDQCE7WN'', audio_locales = [], audio_locale = None\<rparr>"
  let ?v2 = "\<lparr>guid = Some ''GX9UQE4GD'', audio_locales = [], audio_locale = Some '' en-US ''\<rparr>"
  have g0: "\<not> truthy_str (guid ?v0)" by (simp add: truthy_str_def)
  have g1: "truthy_str (guid ?v1) \<and> get_audio_langs_from_data ?v1 = []"
    by (simp add: truthy_str_def get_audio_langs_from_data_def)
  have r2: "version_rows ?v2 = [(Some ''GX9UQE4GD'', Some ''en-us'')]"
    by (simp add: version_rows_def truthy_str_def get_audio_langs_from_data_def
        lang_formatter_def strip_def is_space_def str_lower_def lower_char_def)
  have s0: "lang_table ''GY2P1Q98Y'' ([] @ ?v0 # [?v1, ?v2]) = lang_table ''GY2P1Q98Y'' ([] @ [?v1, ?v2])"
    using lang_table_rows [of ?v0 "''GY2P1Q98Y''" "[]" "[?v1, ?v2]" "[]"] g0 by blast
  have s1: "lang_table ''GY2P1Q98Y'' ([] @ ?v1 # [?v2]) =
      concat (map version_rows []) @ [(guid ?v1, None)] @ lang_table ''GY2P1Q98Y'' [?v2]"
    using lang_table_rows [of ?v1 "''GY2P1Q98Y''" "[]" "[?v2]" "[]"] g1 by blast
  have s2: "lang_table ''GY2P1Q98Y'' [?v2] =
      [(Some ''GX9UQE4GD'', Some ''en-us''), (Some ''GY2P1Q98Y'', Some ''@@default'')]"
    by (simp add: lang_table_def r2 DEFAULT_LANG_def)
  have eq: "lang_table ''GY2P1Q98Y'' [?v0, ?v1, ?v2] =
      [(Some ''GRDQCE7WN'', None), (Some ''GX9UQE4GD'', Some ''en-us''),
       (Some ''GY2P1Q98Y'', Some ''@@default'')]"
    using s0 s1 s2 by simp
  have mem: "hd (lang_table ''GY2P1Q98Y'' [?v0, ?v1, ?v2])
      \<in> set (lang_table ''GY2P1Q98Y'' [?v0, ?v1, ?v2])"
    by (simp add: eq)
  have nn: "fst (hd (lang_table ''GY2P1Q98Y'' [?v0, ?v1, ?v2])) \<noteq> None"
    using lang_table_rows [of ?v0 "''GY2P1Q98Y''" "[]" "[]" "[?v0, ?v1, ?v2]"] mem by blast
  from eq nn show ?thesis by blast
qed

section \<open>Properties of \<open>available_formats\<close>\<close>

lemma fold_update_map_of:
  "map_of (fold (\<lambda>p. AList.update (fst p) (snd p)) xs al) = map_of (rev xs @ al)"
proof (induction xs arbitrary: al)
  case Nil
  then show ?case by simp
next
  case (Cons x xs)
  show ?case
    by (simp add: Cons.IH update_conv' map_add_def fun_eq_iff split: option.splits)
qed

lemma fold_update_distinct:
  "distinct (map fst al) \<Longrightarrow>
   distinct (map fst (fold (\<lambda>p. AList.update (fst p) (snd p)) xs al))"
  by (induction xs arbitrary: al) (simp_all add: distinct_update)

lemma add_stream_entry_of:
  "add_stream env t s =
   (\<lambda>af. AList.update (fst (entry_of env (t, s))) (snd (entry_of env (t, s))) af)"
  by (simp add: add_stream_def entry_of_def fun_eq_iff)

lemma fold_add_stream:
  "fold (add_stream env t) ss af =
   fold (\<lambda>p. AList.update (fst p) (snd p)) (map (\<lambda>s. entry_of env (t, s)) ss) af"
  by (induction ss arbitrary: af) (simp_all add: add_stream_entry_of)

lemma fold_streams:
  "fold (\<lambda>(stream_type, ss) af.
             if stream_type \<notin> set requested then af
             else fold (add_stream env stream_type) (filter (\<lambda>s. url s \<noteq> []) ss) af) xs af
   = fold (\<lambda>p. AList.update (fst p) (snd p))
       (map (entry_of env) (concat (map (\<lambda>(stream_type, ss).
                    if stream_type \<in> set requested
                    then map (Pair stream_type) (filter (\<lambda>s. url s \<noteq> []) ss) else []) xs))) af"
proof (induction xs arbitrary: af)
  case Nil
  then show ?case by simp
next
  case (Cons x xs)
  obtain t ss where x: "x = (t, ss)" by (cases x)
  show ?case by (simp add: x Cons.IH fold_add_stream comp_def)
qed

lemma available_formats_fold:
  "available_formats env requested resp =
   fold (\<lambda>p. AList.update (fst p) (snd p)) (map (entry_of env) (kept_streams requested resp)) []"
  by (simp add: available_formats_def kept_streams_def fold_streams)

lemma kept_streams_mem:
  "(t, s) \<in> set (kept_streams requested resp) \<Longrightarrow> t \<in> set requested \<and> url s \<noteq> []"
  by (auto simp: kept_streams_def split: if_splits)

lemma available_formats_distinct: "distinct (map fst (available_formats env requested resp))"
  by (simp add: available_formats_fold fold_update_distinct)

lemma available_formats_map_of:
  "map_of (available_formats env requested resp) =
   map_of (rev (map (entry_of env) (kept_streams requested resp)))"
  by (simp add: available_formats_fold fold_update_map_of)

lemma available_formats_mem:
  assumes "(k, e) \<in> set (available_formats env requested resp)"
  shows "\<exists>t s. (t, s) \<in> set (kept_streams requested resp) \<and> (k, e) = entry_of env (t, s)"
proof -
  have "map_of (available_formats env requested resp) k = Some e"
    using assms available_formats_distinct by simp
  then have "map_of (rev (map (entry_of env) (kept_streams requested resp))) k = Some e"
    by (simp add: available_formats_map_of)
  then have "(k, e) \<in> set (rev (map (entry_of env) (kept_streams requested resp)))"
    by (rule map_of_SomeD)
  then show ?thesis by auto
qed

lemma available_formats_key:
  assumes "(k, stream_type, format_id, hardsub_lang, stream_url)
             \<in> set (available_formats env requested resp)"
  shows "stream_type \<in> set requested \<and> stream_url \<noteq> [] \<and> hardsub_lang = k"
proof -
  obtain t s where ts: "(t, s) \<in> set (kept_streams requested resp)"
    and eq: "(k, stream_type, format_id, hardsub_lang, stream_url) = entry_of env (t, s)"
    using available_formats_mem [OF assms] by blast
  from eq have "stream_type = t" "stream_url = url s" "hardsub_lang = k"
    by (simp_all add: entry_of_def)
  with kept_streams_mem [OF ts] show ?thesis by simp
qed




section \<open>Properties of format extraction\<close>

lemma fold_format_step:
  "fst (fold (format_step env full al rh) es (fs, log)) =
   fs @ concat (map (renditions env full al rh) es)"
proof (induction es arbitrary: fs log)
  case Nil then show ?case by simp
next
  case (Cons e es)
  obtain t fid hl u where e: "e = (t, fid, hl, u)" by (cases e)
  show ?case
    by (cases "adaptive_formats env full (t, fid, hl, u)") (simp_all add: e Cons.IH del: adaptive_formats.simps)
qed

lemma extract_formats_renditions:
  "fst (extract_formats env cfg_format cfg_hardsub resp log) =
   concat (map (renditions env
       (full_format_langs (available_formats env (requested_formats cfg_format) resp) (requested_hardsubs cfg_hardsub))
       (audio_locale_of resp) (requested_hardsubs cfg_hardsub))
     (map snd (available_formats env (requested_formats cfg_format) resp)))"
  by (simp add: extract_formats_def Let_def fold_format_step)

lemma str_lower_key_mem:
  "(k, e) \<in> set af \<Longrightarrow> str_lower k \<in> set (map (\<lambda>p. str_lower (fst p)) af)"
  by force

lemma index_of_append: "x \<notin> set ys \<Longrightarrow> index_of (ys @ x # zs) x = Some (length ys)"
  by (induction ys) auto

lemma index_of_notin: "x \<notin> set xs \<Longrightarrow> index_of xs x = None"
  by (induction xs) auto

lemma index_of_in: "x \<in> set xs \<Longrightarrow> \<exists>i. index_of xs x = Some i"
  by (induction xs) auto

lemma qualities_notin: "x \<notin> set xs \<Longrightarrow> qualities xs x = - 1"
  by (simp add: qualities_def index_of_notin)

lemma qualities_in: "x \<in> set xs \<Longrightarrow> 0 \<le> qualities xs x"
  using index_of_in [of x xs] by (auto simp: qualities_def)

lemma qualities_last_occurrence:
  assumes "i < length rh" and "rh ! i \<notin> set (drop (Suc i) rh)"
  shows "qualities (rev rh) (rh ! i) = int (length rh - Suc i)"
proof -
  have "rh = take i rh @ rh ! i # drop (Suc i) rh"
    using assms(1) by (rule id_take_nth_drop)
  then have "rev rh = rev (drop (Suc i) rh) @ rh ! i # rev (take i rh)"
    by (metis rev.simps(2) rev_append append_Cons append_Nil append_assoc)
  moreover have "rh ! i \<notin> set (rev (drop (Suc i) rh))"
    using assms(2) by simp
  ultimately have "index_of (rev rh) (rh ! i) = Some (length (rev (drop (Suc i) rh)))"
    using index_of_append [of "rh ! i" "rev (drop (Suc i) rh)" "rev (take i rh)"] by simp
  then show ?thesis by (simp add: qualities_def)
qed

lemma renditions_mem:
  assumes "g \<in> set (renditions env full al rh (stream_type, format_id, hardsub_lang, stream_url))"
  shows "\<exists>fs. adaptive_formats env full (stream_type, format_id, hardsub_lang, stream_url) = Some fs
           \<and> (\<exists>f \<in> set fs. g = tag_format al (hardsub_preference rh hardsub_lang) f)"
  using assms
  by (cases "adaptive_formats env full (stream_type, format_id, hardsub_lang, stream_url)")
     (auto simp del: adaptive_formats.simps)

lemma renditions_intro:
  assumes "adaptive_formats env full (stream_type, format_id, hardsub_lang, stream_url) = Some fs"
    and "f \<in> set fs"
  shows "tag_format al (hardsub_preference rh hardsub_lang) f
           \<in> set (renditions env full al rh (stream_type, format_id, hardsub_lang, stream_url))"
  using assms by (simp del: adaptive_formats.simps)

lemma tag_format_quality: "tag_format al q f ''quality'' = Some (PInt q)"
  by (simp add: tag_format_def Let_def)


lemma tag_format_other:
  "key \<noteq> ''language'' \<Longrightarrow> key \<noteq> ''quality'' \<Longrightarrow> tag_format al q f key = f key"
  by (simp add: tag_format_def Let_def)

lemma extract_formats_mem:
  assumes "g \<in> set (fst (extract_formats env cfg_format cfg_hardsub resp log))"
  shows "\<exists>k stream_type format_id hardsub_lang stream_url fs f.
     (k, stream_type, format_id, hardsub_lang, stream_url)
        \<in> set (available_formats env (requested_formats cfg_format) resp)
     \<and> adaptive_formats env
          (full_format_langs (available_formats env (requested_formats cfg_format) resp)
             (requested_hardsubs cfg_hardsub))
          (stream_type, format_id, hardsub_lang, stream_url) = Some fs
     \<and> f \<in> set fs
     \<and> g = tag_format (audio_locale_of resp)
           (hardsub_preference (requested_hardsubs cfg_hardsub) hardsub_lang) f"
proof -
  let ?af = "available_formats env (requested_formats cfg_format) resp"
  let ?rh = "requested_hardsubs cfg_hardsub"
  from assms obtain p where p: "p \<in> set ?af"
    and g: "g \<in> set (renditions env (full_format_langs ?af ?rh) (audio_locale_of resp) ?rh (snd p))"
    by (auto simp: extract_formats_renditions)
  obtain k t fid hl u where pe: "p = (k, t, fid, hl, u)" by (cases p)
  from g renditions_mem [of g env "full_format_langs ?af ?rh" "audio_locale_of resp" ?rh t fid hl u]
  obtain fs f where "adaptive_formats env (full_format_langs ?af ?rh) (t, fid, hl, u) = Some fs"
    "f \<in> set fs" "g = tag_format (audio_locale_of resp) (hardsub_preference ?rh hl) f"
    unfolding pe by auto
  with p pe show ?thesis by blast
qed

lemma extract_formats_intro:
  assumes "(k, stream_type, format_id, hardsub_lang, stream_url)
        \<in> set (available_formats env (requested_formats cfg_format) resp)"
    and "adaptive_formats env
          (full_format_langs (available_formats env (requested_formats cfg_format) resp)
             (requested_hardsubs cfg_hardsub))
          (stream_type, format_id, hardsub_lang, stream_url) = Some fs"
    and "f \<in> set fs"
  shows "tag_format (audio_locale_of resp)
           (hardsub_preference (requested_hardsubs cfg_hardsub) hardsub_lang) f
         \<in> set (fst (extract_formats env cfg_format cfg_hardsub resp log))"
proof -
  let ?af = "available_formats env (requested_formats cfg_format) resp"
  let ?rh = "requested_hardsubs cfg_hardsub"
  have "tag_format (audio_locale_of resp) (hardsub_preference ?rh hardsub_lang) f
      \<in> set (renditions env (full_format_langs ?af ?rh) (audio_locale_of resp) ?rh
               (snd (k, stream_type, format_id, hardsub_lang, stream_url)))"
    using renditions_intro [OF assms(2,3)] by simp
  with assms(1) have "\<exists>p \<in> set ?af.
      tag_format (audio_locale_of resp) (hardsub_preference ?rh hardsub_lang) f
      \<in> set (renditions env (full_format_langs ?af ?rh) (audio_locale_of resp) ?rh (snd p))"
    by (rule rev_bexI)
  then show ?thesis
    by (simp add: extract_formats_renditions del: renditions.simps)
qed

text \<open>
  Claim C3, as the code has it. The formats are the renditions of the entries of
  \<open>available_formats\<close>, in order. For an entry whose stream type ends in \<open>hls\<close>: when an
  untagged stream is present and \<open>all\<close> is not requested, the entry is resolved through its
  HLS playlist if its lower-cased hardsub language is in the requested list, and otherwise
  yields exactly one rendition, built from its manifest url; when no untagged stream is
  present, the entry is resolved through its HLS playlist whatever was requested. An entry
  of a stream type ending in \<open>dash\<close> is always resolved through its DASH manifest, and an
  entry of any other stream type yields no rendition.
\<close>

theorem hls_expansion:
  assumes af: "af = available_formats env (requested_formats cfg_format) resp"
    and rh: "rh = requested_hardsubs cfg_hardsub"
    and full: "full = full_format_langs af rh"
    and mem: "(k, stream_type, format_id, hardsub_lang, stream_url) \<in> set af"
  shows "fst (extract_formats env cfg_format cfg_hardsub resp log) =
           concat (map (renditions env full (audio_locale_of resp) rh) (map snd af))
     \<and> (endswith stream_type ''hls'' \<and> restrict_to_requested af rh
          \<and> str_lower hardsub_lang \<in> set rh \<longrightarrow>
          renditions env full (audio_locale_of resp) rh
              (stream_type, format_id, hardsub_lang, stream_url) =
            map (tag_format (audio_locale_of resp) (hardsub_preference rh hardsub_lang))
                (extract_m3u8_formats env stream_url format_id))
     \<and> (endswith stream_type ''hls'' \<and> restrict_to_requested af rh
          \<and> str_lower hardsub_lang \<notin> set rh \<longrightarrow>
          renditions env full (audio_locale_of resp) rh
              (stream_type, format_id, hardsub_lang, stream_url) =
            [tag_format (audio_locale_of resp) (hardsub_preference rh hardsub_lang)
                (m3u8_meta_format env stream_url format_id)])
     \<and> (endswith stream_type ''hls'' \<and> [] \<notin> set (map fst af) \<longrightarrow>
          renditions env full (audio_locale_of resp) rh
              (stream_type, format_id, hardsub_lang, stream_url) =
            map (tag_format (audio_locale_of resp) (hardsub_preference rh hardsub_lang))
                (extract_m3u8_formats env stream_url format_id))
     \<and> (\<not> endswith stream_type ''hls'' \<and> endswith stream_type ''dash'' \<longrightarrow>
          renditions env full (audio_locale_of resp) rh
              (stream_type, format_id, hardsub_lang, stream_url) =
            map (tag_format (audio_locale_of resp) (hardsub_preference rh hardsub_lang))
                (extract_mpd_formats env stream_url format_id))
     \<and> (\<not> endswith stream_type ''hls'' \<and> \<not> endswith stream_type ''dash'' \<longrightarrow>
          renditions env full (audio_locale_of resp) rh
              (stream_type, format_id, hardsub_lang, stream_url) = [])"
proof -
  have key: "hardsub_lang = k"
    using available_formats_key mem unfolding af by blast
  have a: "fst (extract_formats env cfg_format cfg_hardsub resp log) =
           concat (map (renditions env full (audio_locale_of resp) rh) (map snd af))"
    by (simp add: extract_formats_renditions af rh full)
  have b: "endswith stream_type ''hls'' \<and> restrict_to_requested af rh
          \<and> str_lower hardsub_lang \<in> set rh \<longrightarrow>
          renditions env full (audio_locale_of resp) rh
              (stream_type, format_id, hardsub_lang, stream_url) =
            map (tag_format (audio_locale_of resp) (hardsub_preference rh hardsub_lang))
                (extract_m3u8_formats env stream_url format_id)"
    by (simp add: full full_format_langs_def)
  have c: "endswith stream_type ''hls'' \<and> restrict_to_requested af rh
          \<and> str_lower hardsub_lang \<notin> set rh \<longrightarrow>
          renditions env full (audio_locale_of resp) rh
              (stream_type, format_id, hardsub_lang, stream_url) =
            [tag_format (audio_locale_of resp) (hardsub_preference rh hardsub_lang)
                (m3u8_meta_format env stream_url format_id)]"
    by (simp add: full full_format_langs_def)
  have "str_lower hardsub_lang \<in> set (map (\<lambda>p. str_lower (fst p)) af)"
    using str_lower_key_mem [OF mem] key by simp
  then have d: "endswith stream_type ''hls'' \<and> [] \<notin> set (map fst af) \<longrightarrow>
          renditions env full (audio_locale_of resp) rh
              (stream_type, format_id, hardsub_lang, stream_url) =
            map (tag_format (audio_locale_of resp) (hardsub_preference rh hardsub_lang))
                (extract_m3u8_formats env stream_url format_id)"
    by (simp add: full full_format_langs_def restrict_to_requested_def)
  have e: "\<not> endswith stream_type ''hls'' \<and> endswith stream_type ''dash'' \<longrightarrow>
          renditions env full (audio_locale_of resp) rh
              (stream_type, format_id, hardsub_lang, stream_url) =
            map (tag_format (audio_locale_of resp) (hardsub_preference rh hardsub_lang))
                (extract_mpd_formats env stream_url format_id)"
    by simp
  have f: "\<not> endswith stream_type ''hls'' \<and> \<not> endswith stream_type ''dash'' \<longrightarrow>
          renditions env full (audio_locale_of resp) rh
              (stream_type, format_id, hardsub_lang, stream_url) = []"
    by simp
  from a b c d e f show ?thesis by blast
qed

theorem hls_expansion_witness:
  "(''en-US'', ''adaptive_hls'', ''adaptive_hls-hardsub-en-US'', ''en-US'', ''h1'')
      \<in> set (available_formats demo_extractors (requested_formats []) demo_manifest)
   \<and> endswith ''adaptive_hls'' ''hls''
   \<and> restrict_to_requested (available_formats demo_extractors (requested_formats []) demo_manifest)
        (requested_hardsubs [])
   \<and> str_lower ''en-US'' \<notin> set (requested_hardsubs [])
   \<and> renditions demo_extractors
        (full_format_langs (available_formats demo_extractors (requested_formats []) demo_manifest)
           (requested_hardsubs []))
        (audio_locale_of demo_manifest) (requested_hardsubs [])
        (''adaptive_hls'', ''adaptive_hls-hardsub-en-US'', ''en-US'', ''h1'') =
      [tag_format (audio_locale_of demo_manifest) (hardsub_preference (requested_hardsubs []) ''en-US'')
         (m3u8_meta_format demo_extractors ''h1'' ''adaptive_hls-hardsub-en-US'')]"
proof -
  have mem: "(''en-US'', ''adaptive_hls'', ''adaptive_hls-hardsub-en-US'', ''en-US'', ''h1'')
      \<in> set (available_formats demo_extractors (requested_formats []) demo_manifest)"
    by code_simp
  have hls: "endswith ''adaptive_hls'' ''hls''"
    by code_simp
  have r: "restrict_to_requested (available_formats demo_extractors (requested_formats []) demo_manifest)
        (requested_hardsubs [])"
    by code_simp
  have n: "str_lower ''en-US'' \<notin> set (requested_hardsubs [])"
    by code_simp
  show ?thesis
    using hls_expansion [where cfg_hardsub = "[]" and log = "[]", OF refl refl refl mem] r n mem hls
    by blast
qed

text \<open>
  Claim C3 as stated fails for DASH streams. With \<open>adaptive_dash\<close> requested and the
  default hardsub option, an untagged stream is present, \<open>all\<close> is not requested and
  \<open>en-us\<close> is not requested either; the stream hardsubbed in \<open>en-US\<close> still yields the
  renditions of its resolved DASH manifest, not one rendition built from its url.
\<close>

theorem dash_expansion_counterexample:
  "restrict_to_requested (available_formats demo_extractors (requested_formats [''adaptive_dash''])
        demo_dash_manifest) (requested_hardsubs [])
   \<and> str_lower ''en-US'' \<notin> set (requested_hardsubs [])
   \<and> field_values ''format_id''
        (fst (extract_formats demo_extractors [''adaptive_dash''] [] demo_dash_manifest [])) =
      [Some (PStr ''adaptive_dash-video''), Some (PStr ''adaptive_dash-audio''),
       Some (PStr ''adaptive_dash-hardsub-en-US-video''),
       Some (PStr ''adaptive_dash-hardsub-en-US-audio'')]"
  by code_simp

lemma renditions_snd:
  "renditions env full al rh (snd p) =
     (case p of (k, stream_type, format_id, hardsub_lang, stream_url) \<Rightarrow>
        (case adaptive_formats env full (stream_type, format_id, hardsub_lang, stream_url) of
           None \<Rightarrow> []
         | Some fs \<Rightarrow> map (tag_format al (hardsub_preference rh hardsub_lang)) fs))"
  by (cases p) (simp del: adaptive_formats.simps)

lemma extract_formats_entries:
  "fst (extract_formats env cfg_format cfg_hardsub resp log) =
   concat (map (\<lambda>(k, stream_type, format_id, hardsub_lang, stream_url).
       case adaptive_formats env
              (full_format_langs (available_formats env (requested_formats cfg_format) resp)
                 (requested_hardsubs cfg_hardsub))
              (stream_type, format_id, hardsub_lang, stream_url) of
         None \<Rightarrow> []
       | Some fs \<Rightarrow>
           map (tag_format (audio_locale_of resp)
                  (hardsub_preference (requested_hardsubs cfg_hardsub) hardsub_lang)) fs)
     (available_formats env (requested_formats cfg_format) resp))"
  by (simp only: extract_formats_renditions map_map comp_def renditions_snd)

text \<open>
  Claim C6, as the code has it. The formats are, entry by entry of \<open>available_formats\<close>
  and in that order, the renditions resolved for the entry, each with \<open>quality\<close> set to
  the rank of the lower-cased hardsub language of that same entry in the reversed list of
  requested hardsub languages: every format returned is such a rendition of some entry,
  ranked by the language of that entry, and every rendition of every entry is returned
  so. Of two requested languages, the one whose last request comes earlier in the list
  ranks strictly higher; a language that is not requested ranks \<open>-1\<close>, below every
  requested one.
\<close>

theorem hardsub_quality_rank:
  "fst (extract_formats env cfg_format cfg_hardsub resp log) =
     concat (map (\<lambda>(k, stream_type, format_id, hardsub_lang, stream_url).
         case adaptive_formats env
                (full_format_langs (available_formats env (requested_formats cfg_format) resp)
                   (requested_hardsubs cfg_hardsub))
                (stream_type, format_id, hardsub_lang, stream_url) of
           None \<Rightarrow> []
         | Some fs \<Rightarrow>
             map (tag_format (audio_locale_of resp)
                    (hardsub_preference (requested_hardsubs cfg_hardsub) hardsub_lang)) fs)
       (available_formats env (requested_formats cfg_format) resp))
   \<and> (\<forall>g \<in> set (fst (extract_formats env cfg_format cfg_hardsub resp log)).
        \<exists>(k, stream_type, format_id, hardsub_lang, stream_url)
            \<in> set (available_formats env (requested_formats cfg_format) resp).
        \<exists>fs. adaptive_formats env
                (full_format_langs (available_formats env (requested_formats cfg_format) resp)
                   (requested_hardsubs cfg_hardsub))
                (stream_type, format_id, hardsub_lang, stream_url) = Some fs
          \<and> (\<exists>f \<in> set fs.
                g = tag_format (audio_locale_of resp)
                      (hardsub_preference (requested_hardsubs cfg_hardsub) hardsub_lang) f
              \<and> g ''quality'' =
                  Some (PInt (hardsub_preference (requested_hardsubs cfg_hardsub) hardsub_lang))))
   \<and> (\<forall>(k, stream_type, format_id, hardsub_lang, stream_url)
          \<in> set (available_formats env (requested_formats cfg_format) resp).
        \<forall>fs. adaptive_formats env
                (full_format_langs (available_formats env (requested_formats cfg_format) resp)
                   (requested_hardsubs cfg_hardsub))
                (stream_type, format_id, hardsub_lang, stream_url) = Some fs \<longrightarrow>
        (\<forall>f \<in> set fs.
           tag_format (audio_locale_of resp)
               (hardsub_preference (requested_hardsubs cfg_hardsub) hardsub_lang) f
             \<in> set (fst (extract_formats env cfg_format cfg_hardsub resp log))
         \<and> tag_format (audio_locale_of resp)
               (hardsub_preference (requested_hardsubs cfg_hardsub) hardsub_lang) f ''quality'' =
             Some (PInt (hardsub_preference (requested_hardsubs cfg_hardsub) hardsub_lang))))
   \<and> (\<forall>i j hl1 hl2. i < j \<and> j < length rh
        \<and> str_lower hl1 = rh ! i \<and> rh ! i \<notin> set (drop (Suc i) rh)
        \<and> str_lower hl2 = rh ! j \<and> rh ! j \<notin> set (drop (Suc j) rh)
        \<longrightarrow> hardsub_preference rh hl2 < hardsub_preference rh hl1)
   \<and> (\<forall>hl hl'. str_lower hl \<notin> set rh \<and> str_lower hl' \<in> set rh
        \<longrightarrow> hardsub_preference rh hl = - 1 \<and> hardsub_preference rh hl < hardsub_preference rh hl')"
proof -
  let ?af = "available_formats env (requested_formats cfg_format) resp"
  let ?rh = "requested_hardsubs cfg_hardsub"
  let ?full = "full_format_langs ?af ?rh"
  let ?al = "audio_locale_of resp"
  let ?out = "fst (extract_formats env cfg_format cfg_hardsub resp log)"
  have a: "?out = concat (map (\<lambda>(k, stream_type, format_id, hardsub_lang, stream_url).
         case adaptive_formats env ?full (stream_type, format_id, hardsub_lang, stream_url) of
           None \<Rightarrow> []
         | Some fs \<Rightarrow> map (tag_format ?al (hardsub_preference ?rh hardsub_lang)) fs) ?af)"
    by (rule extract_formats_entries)
  have b: "\<forall>g \<in> set ?out.
        \<exists>(k, stream_type, format_id, hardsub_lang, stream_url) \<in> set ?af.
        \<exists>fs. adaptive_formats env ?full (stream_type, format_id, hardsub_lang, stream_url) = Some fs
          \<and> (\<exists>f \<in> set fs.
                g = tag_format ?al (hardsub_preference ?rh hardsub_lang) f
              \<and> g ''quality'' = Some (PInt (hardsub_preference ?rh hardsub_lang)))"
  proof
    fix g assume "g \<in> set ?out"
    from extract_formats_mem [OF this]
    obtain k t fid hl u fs f where m: "(k, t, fid, hl, u) \<in> set ?af"
      and ad: "adaptive_formats env ?full (t, fid, hl, u) = Some fs"
      and f: "f \<in> set fs"
      and g: "g = tag_format ?al (hardsub_preference ?rh hl) f"
      by blast
    from g have q: "g ''quality'' = Some (PInt (hardsub_preference ?rh hl))"
      by (simp add: tag_format_quality)
    from m ad f g q
    show "\<exists>(k, stream_type, format_id, hardsub_lang, stream_url) \<in> set ?af.
        \<exists>fs. adaptive_formats env ?full (stream_type, format_id, hardsub_lang, stream_url) = Some fs
          \<and> (\<exists>f \<in> set fs.
                g = tag_format ?al (hardsub_preference ?rh hardsub_lang) f
              \<and> g ''quality'' = Some (PInt (hardsub_preference ?rh hardsub_lang)))"
      by (intro bexI [where x = "(k, t, fid, hl, u)"]) (simp only: prod.case, blast, assumption)
  qed
  have c: "\<forall>(k, stream_type, format_id, hardsub_lang, stream_url) \<in> set ?af.
        \<forall>fs. adaptive_formats env ?full (stream_type, format_id, hardsub_lang, stream_url) = Some fs \<longrightarrow>
        (\<forall>f \<in> set fs.
           tag_format ?al (hardsub_preference ?rh hardsub_lang) f \<in> set ?out
         \<and> tag_format ?al (hardsub_preference ?rh hardsub_lang) f ''quality'' =
             Some (PInt (hardsub_preference ?rh hardsub_lang)))"
  proof
    fix p assume p: "p \<in> set ?af"
    obtain k t fid hl u where pe: "p = (k, t, fid, hl, u)" by (cases p)
    have "\<forall>fs. adaptive_formats env ?full (t, fid, hl, u) = Some fs \<longrightarrow>
        (\<forall>f \<in> set fs.
           tag_format ?al (hardsub_preference ?rh hl) f \<in> set ?out
         \<and> tag_format ?al (hardsub_preference ?rh hl) f ''quality'' =
             Some (PInt (hardsub_preference ?rh hl)))"
    proof (intro allI impI ballI conjI)
      fix fs f assume ad: "adaptive_formats env ?full (t, fid, hl, u) = Some fs" and f: "f \<in> set fs"
      show "tag_format ?al (hardsub_preference ?rh hl) f \<in> set ?out"
        using extract_formats_intro [of k t fid hl u env cfg_format resp cfg_hardsub fs f log]
          p pe ad f by blast
      show "tag_format ?al (hardsub_preference ?rh hl) f ''quality'' =
             Some (PInt (hardsub_preference ?rh hl))"
        by (rule tag_format_quality)
    qed
    then show "case p of (k, stream_type, format_id, hardsub_lang, stream_url) \<Rightarrow>
        \<forall>fs. adaptive_formats env ?full (stream_type, format_id, hardsub_lang, stream_url) = Some fs \<longrightarrow>
        (\<forall>f \<in> set fs.
           tag_format ?al (hardsub_preference ?rh hardsub_lang) f \<in> set ?out
         \<and> tag_format ?al (hardsub_preference ?rh hardsub_lang) f ''quality'' =
             Some (PInt (hardsub_preference ?rh hardsub_lang)))"
      by (simp only: pe prod.case)
  qed
  have d: "\<forall>i j hl1 hl2. i < j \<and> j < length rh
        \<and> str_lower hl1 = rh ! i \<and> rh ! i \<notin> set (drop (Suc i) rh)
        \<and> str_lower hl2 = rh ! j \<and> rh ! j \<notin> set (drop (Suc j) rh)
        \<longrightarrow> hardsub_preference rh hl2 < hardsub_preference rh hl1"
  proof (intro allI impI)
    fix i j hl1 hl2
    assume h: "i < j \<and> j < length rh
        \<and> str_lower hl1 = rh ! i \<and> rh ! i \<notin> set (drop (Suc i) rh)
        \<and> str_lower hl2 = rh ! j \<and> rh ! j \<notin> set (drop (Suc j) rh)"
    then have "qualities (rev rh) (rh ! i) = int (length rh - Suc i)"
      and "qualities (rev rh) (rh ! j) = int (length rh - Suc j)"
      by (simp_all add: qualities_last_occurrence)
    with h show "hardsub_preference rh hl2 < hardsub_preference rh hl1"
      by (simp add: hardsub_preference_def)
  qed
  have e: "\<forall>hl hl'. str_lower hl \<notin> set rh \<and> str_lower hl' \<in> set rh
        \<longrightarrow> hardsub_preference rh hl = - 1 \<and> hardsub_preference rh hl < hardsub_preference rh hl'"
  proof (intro allI impI)
    fix hl hl'
    assume h: "str_lower hl \<notin> set rh \<and> str_lower hl' \<in> set rh"
    then have "qualities (rev rh) (str_lower hl) = - 1" "0 \<le> qualities (rev rh) (str_lower hl')"
      by (simp_all add: qualities_notin qualities_in)
    then show "hardsub_preference rh hl = - 1 \<and> hardsub_preference rh hl < hardsub_preference rh hl'"
      by (simp add: hardsub_preference_def)
  qed
  show ?thesis
    by (intro conjI a b c d e)
qed

theorem hardsub_quality_rank_witness:
  "(\<exists>g \<in> set (fst (extract_formats demo_extractors [] [''en-us'', ''none''] demo_manifest [])).
      g ''quality'' = Some (PInt 1)
      \<and> g ''format_id'' = Some (PStr ''adaptive_hls-hardsub-en-US-2''))
   \<and> field_values ''quality''
        (fst (extract_formats demo_extractors [] [''en-us'', ''none''] demo_manifest [])) =
      [Some (PInt 0), Some (PInt 0), Some (PInt 1), Some (PInt 1)]
   \<and> hardsub_preference [''en-us'', ''''] '''' < hardsub_preference [''en-us'', ''''] ''en-US''
   \<and> hardsub_preference [''en-us'', ''''] ''de-DE'' = - 1
   \<and> hardsub_preference [''en-us'', ''''] ''de-DE'' < hardsub_preference [''en-us'', ''''] ''en-US''"
proof -
  let ?out = "fst (extract_formats demo_extractors [] [''en-us'', ''none''] demo_manifest [])"
  let ?af = "available_formats demo_extractors (requested_formats []) demo_manifest"
  let ?rh = "requested_hardsubs [''en-us'', ''none'']"
  let ?full = "full_format_langs ?af ?rh"
  let ?f1 = "[''format_id'' \<mapsto> PStr (''adaptive_hls-hardsub-en-US'' @ ''-1''), ''acodec'' \<mapsto> PStr ''none'']"
  let ?f2 = "[''format_id'' \<mapsto> PStr (''adaptive_hls-hardsub-en-US'' @ ''-2'')]"
  have mem: "(''en-US'', ''adaptive_hls'', ''adaptive_hls-hardsub-en-US'', ''en-US'', ''h1'') \<in> set ?af"
    by code_simp
  have hls: "endswith ''adaptive_hls'' ''hls''" by code_simp
  have inf: "str_lower ''en-US'' \<in> set ?full" by code_simp
  have ad: "adaptive_formats demo_extractors ?full
      (''adaptive_hls'', ''adaptive_hls-hardsub-en-US'', ''en-US'', ''h1'') = Some [?f1, ?f2]"
    using hls inf by (simp add: demo_extractors_def)
  have pr: "hardsub_preference ?rh ''en-US'' = 1" by code_simp
  have fv: "field_values ''quality'' ?out = [Some (PInt 0), Some (PInt 0), Some (PInt 1), Some (PInt 1)]"
    by code_simp
  have h: "(0::nat) < 1 \<and> 1 < length [''en-us'', '''']
        \<and> str_lower ''en-US'' = [''en-us'', ''''] ! 0
        \<and> [''en-us'', ''''] ! 0 \<notin> set (drop (Suc 0) [''en-us'', ''''])
        \<and> str_lower '''' = [''en-us'', ''''] ! 1
        \<and> [''en-us'', ''''] ! 1 \<notin> set (drop (Suc 1) [''en-us'', ''''])"
    by code_simp
  have h3: "str_lower ''de-DE'' \<notin> set [''en-us'', ''''] \<and> str_lower ''en-US'' \<in> set [''en-us'', '''']"
    by code_simp
  note T = hardsub_quality_rank [of demo_extractors "[]" "[''en-us'', ''none'']" demo_manifest "[]"
      "[''en-us'', '''']"]
  from T mem ad have "\<forall>f \<in> set [?f1, ?f2].
      tag_format (audio_locale_of demo_manifest) (hardsub_preference ?rh ''en-US'') f \<in> set ?out
      \<and> tag_format (audio_locale_of demo_manifest) (hardsub_preference ?rh ''en-US'') f ''quality'' =
          Some (PInt (hardsub_preference ?rh ''en-US''))"
    by fast
  then have g: "tag_format (audio_locale_of demo_manifest) (hardsub_preference ?rh ''en-US'') ?f2 \<in> set ?out"
    and q: "tag_format (audio_locale_of demo_manifest) (hardsub_preference ?rh ''en-US'') ?f2 ''quality'' =
          Some (PInt (hardsub_preference ?rh ''en-US''))"
    by simp_all
  have fid: "tag_format (audio_locale_of demo_manifest) (hardsub_preference ?rh ''en-US'') ?f2 ''format_id'' =
      Some (PStr ''adaptive_hls-hardsub-en-US-2'')"
    by (simp add: tag_format_other)
  from g q fid pr have a: "\<exists>g \<in> set ?out.
      g ''quality'' = Some (PInt 1) \<and> g ''format_id'' = Some (PStr ''adaptive_hls-hardsub-en-US-2'')"
    by (intro bexI [where x = "tag_format (audio_locale_of demo_manifest) (hardsub_preference ?rh ''en-US'') ?f2"])
       simp_all
  from T h have b: "hardsub_preference [''en-us'', ''''] '''' < hardsub_preference [''en-us'', ''''] ''en-US''"
    by blast
  from T h3 have c: "hardsub_preference [''en-us'', ''''] ''de-DE'' = - 1
     \<and> hardsub_preference [''en-us'', ''''] ''de-DE'' < hardsub_preference [''en-us'', ''''] ''en-US''"
    by blast
  from a fv b c show ?thesis by blast
qed


text \<open>
  Claim C6 as stated fails when a language is requested twice. In \<open>en-us, de-de, en-us\<close>
  the language \<open>en-us\<close> is requested first, before \<open>de-de\<close>, and it ranks lower: its rank
  is the one of its last request.
\<close>

theorem hardsub_quality_rank_counterexample:
  "requested_hardsubs [''en-us'', ''de-de'', ''en-us''] ! 0 = ''en-us''
   \<and> requested_hardsubs [''en-us'', ''de-de'', ''en-us''] ! 1 = ''de-de''
   \<and> hardsub_preference (requested_hardsubs [''en-us'', ''de-de'', ''en-us'']) ''en-US'' = 0
   \<and> hardsub_preference (requested_hardsubs [''en-us'', ''de-de'', ''en-us'']) ''de-DE'' = 1
   \<and> field_values ''format_id''
        (fst (extract_formats demo_extractors [] [''en-us'', ''de-de'', ''en-us'']
           demo_hardsub_manifest [])) =
      [Some (PStr ''adaptive_hls-meta''),
       Some (PStr ''adaptive_hls-hardsub-en-US-1''), Some (PStr ''adaptive_hls-hardsub-en-US-2''),
       Some (PStr ''adaptive_hls-hardsub-de-DE-1''), Some (PStr ''adaptive_hls-hardsub-de-DE-2'')]
   \<and> field_values ''quality''
        (fst (extract_formats demo_extractors [] [''en-us'', ''de-de'', ''en-us'']
           demo_hardsub_manifest [])) =
      [Some (PInt (- 1)), Some (PInt 0), Some (PInt 0), Some (PInt 1), Some (PInt 1)]"
  by code_simp




section \<open>Properties of fetching\<close>

lemma demo_table: "lang_table ''GY2P1Q98Y'' (response_versions demo_default_response) =
   [(Some ''GX9UQE4GD'', Some ''en-us''), (Some ''GY2P1Q98Y'', Some ''@@default'')]"
  by code_simp

lemma demo_keep: "keep_exact_matches ''en-us''
   [(Some ''GX9UQE4GD'', Some ''en-us''), (Some ''GY2P1Q98Y'', Some ''@@default'')] = [Some ''GX9UQE4GD'']"
  by code_simp

text \<open>
  Claim C1 asks that a version whose fetch answers \<open>None\<close> is warned about once and left
  out of the responses, and that resolution fails with the error for no available audio
  language when nothing is left. In the code the warning is printed, but the id is stored
  with \<open>None\<close> all the same. Requesting \<open>en-us\<close> for an episode whose only \<open>en-US\<close>
  version cannot be fetched gives a non-empty dict, so \<open>if not responses\<close> does not fire,
  and the merge hands \<open>None\<close> to \<open>_extract_version\<close>, which raises \<open>AttributeError\<close>.
\<close>

theorem not_found_version_kept:
  "get_responses_for_langs (keep_exact_matches ''en-us'') demo_fetch ''GY2P1Q98Y'' [] =
     (Inr [(Some ''GX9UQE4GD'', None)], [VersionNotFound (Some ''GX9UQE4GD'')])
   \<and> real_extract (keep_exact_matches ''en-us'') demo_fetch transform lang ''GY2P1Q98Y'' [] =
     (Inl (AttributeError ''NoneType object has no attribute get''),
      [VersionNotFound (Some ''GX9UQE4GD'')])"
proof -
  have f0: "demo_fetch (Some ''GY2P1Q98Y'') = Inr (Some demo_default_response)"
    by (simp add: demo_fetch_def)
  have f1: "demo_fetch (Some ''GX9UQE4GD'') = Inr None"
    by (simp add: demo_fetch_def)
  have g: "get_responses_for_langs (keep_exact_matches ''en-us'') demo_fetch ''GY2P1Q98Y'' [] =
     (Inr [(Some ''GX9UQE4GD'', None)], [VersionNotFound (Some ''GX9UQE4GD'')])"
    by (simp add: get_responses_for_langs_def f0 f1 demo_table demo_keep print_once_def)
  show ?thesis
    by (simp add: g real_extract_def extract_versions_and_merge_results_def extract_version_def)
qed

section \<open>Properties of merging\<close>

lemma merge_versions_ok:
  assumes "map (\<lambda>(vid, r). extract lang vid r) rest = map Inr versions"
  shows "merge_versions lang extract rf rest fs ss =
     Inr (fs @ concat (map (\<lambda>v. map (\<lambda>f. f ++ version_differences (attributes v) rf) (version_formats v)) versions),
          foldl (++) ss (map version_subtitles versions))"
  using assms
proof (induction rest arbitrary: versions fs ss)
  case Nil
  then show ?case by simp
next
  case (Cons p rest)
  obtain vid r where p: "p = (vid, r)" by (cases p)
  from Cons.prems obtain v vs where vs: "versions = v # vs"
    and v: "extract lang vid r = Inr v"
    and rest: "map (\<lambda>(vid, r). extract lang vid r) rest = map Inr vs"
    by (cases versions) (auto simp: p)
  show ?case
    by (simp add: p v vs Cons.IH [OF rest])
qed

lemma merge_ok:
  assumes len: "length responses \<noteq> 1"
    and sel: "select_main internal_id responses = Inr ((vid, vr), rest)"
    and base: "extract lang vid vr = Inr base"
    and others: "map (\<lambda>(vid, r). extract lang vid r) rest = map Inr versions"
  shows "extract_versions_and_merge_results lang internal_id responses extract =
     Inr (base\<lparr>formats := Some (version_formats base @ concat (map (stamped_formats base) versions)),
               subtitles := Some (foldl (++) (version_subtitles base) (map version_subtitles versions))\<rparr>)"
  using len
  by (simp add: extract_versions_and_merge_results_def sel base
      merge_versions_ok [of "extract" lang rest versions, OF others] stamped_formats_def [abs_def])

lemma foldl_version_subtitles:
  "foldl (++) m (map version_subtitles versions) l =
     (case find (\<lambda>version. version_subtitles version l \<noteq> None) (rev versions) of
        Some version \<Rightarrow> version_subtitles version l
      | None \<Rightarrow> m l)"
  by (induction versions rule: rev_induct) (auto simp: map_add_def split: option.splits)

lemma version_differences_iff:
  "version_differences v r key = Some val \<longleftrightarrow> (key, val) \<in> hashable_items v - hashable_items r"
  by (auto simp: version_differences_def hashable_items_def split: option.splits)




lemma demo_len: "length demo_responses \<noteq> 1" by (simp add: demo_responses_def)

lemma demo_sel: "select_main ''A'' demo_responses =
    Inr ((''A'', Some ''ja-JP''), [(''B'', Some ''en-US''), (''C'', Some ''de-DE'')])"
  by (simp add: select_main_def demo_responses_def delete_simps)

lemma demo_base: "demo_extract lang ''A'' (Some ''ja-JP'') = Inr (demo_result ''A'' ''ja-JP'')"
  by (simp add: demo_extract_def)

lemma demo_others: "map (\<lambda>(vid, r). demo_extract lang vid r) [(''B'', Some ''en-US''), (''C'', Some ''de-DE'')]
    = map Inr [demo_result ''B'' ''en-US'', demo_result ''C'' ''de-DE'']"
  by (simp add: demo_extract_def)






text \<open>
  Claim C5. Merging several versions, when every extraction succeeds: the formats of the
  merged result are the formats of the main result, as they are, followed by the formats
  of each other version, each one updated with the differences of that version. The
  differences of a version are exactly the pairs among its hashable items that are not
  among the hashable items of the main result; so every stamped value is hashable.
\<close>

theorem diff_stamping:
  assumes len: "length responses \<noteq> 1"
    and sel: "select_main internal_id responses = Inr ((vid, vr), rest)"
    and base: "extract lang vid vr = Inr base"
    and others: "map (\<lambda>(vid, r). extract lang vid r) rest = map Inr versions"
  shows "\<exists>merged. extract_versions_and_merge_results lang internal_id responses extract = Inr merged
     \<and> formats merged = Some (version_formats base @ concat (map (stamped_formats base) versions))
     \<and> (\<forall>version \<in> set versions.
          length (stamped_formats base version) = length (version_formats version)
          \<and> (\<forall>i < length (version_formats version). \<forall>key.
               (stamped_formats base version ! i) key =
                 (case version_differences (attributes version) (attributes base) key of
                    Some val \<Rightarrow> Some val
                  | None \<Rightarrow> (version_formats version ! i) key))
          \<and> (\<forall>key val.
               version_differences (attributes version) (attributes base) key = Some val \<longleftrightarrow>
               (key, val) \<in> hashable_items (attributes version) - hashable_items (attributes base))
          \<and> (\<forall>key val.
               version_differences (attributes version) (attributes base) key = Some val \<longrightarrow>
               is_hashable val))"
proof -
  have s: "\<forall>version \<in> set versions.
          length (stamped_formats base version) = length (version_formats version)
          \<and> (\<forall>i < length (version_formats version). \<forall>key.
               (stamped_formats base version ! i) key =
                 (case version_differences (attributes version) (attributes base) key of
                    Some val \<Rightarrow> Some val
                  | None \<Rightarrow> (version_formats version ! i) key))
          \<and> (\<forall>key val.
               version_differences (attributes version) (attributes base) key = Some val \<longleftrightarrow>
               (key, val) \<in> hashable_items (attributes version) - hashable_items (attributes base))
          \<and> (\<forall>key val.
               version_differences (attributes version) (attributes base) key = Some val \<longrightarrow>
               is_hashable val)"
    by (auto simp: stamped_formats_def map_add_def version_differences_iff hashable_items_def
        split: option.splits)
  show ?thesis
    using s by (simp add: merge_ok [of responses internal_id vid vr rest "extract" lang base versions, OF len sel base others])
qed

theorem diff_stamping_witness:
  "length demo_responses \<noteq> 1
   \<and> select_main ''A'' demo_responses =
       Inr ((''A'', Some ''ja-JP''), [(''B'', Some ''en-US''), (''C'', Some ''de-DE'')])
   \<and> (\<exists>merged. extract_versions_and_merge_results ''de/'' ''A'' demo_responses demo_extract = Inr merged
        \<and> formats merged = Some (version_formats (demo_result ''A'' ''ja-JP'') @
             concat (map (stamped_formats (demo_result ''A'' ''ja-JP''))
                       [demo_result ''B'' ''en-US'', demo_result ''C'' ''de-DE''])))
   \<and> (''title'', PStr ''Episode 1 (en-US)'')
        \<in> hashable_items (attributes (demo_result ''B'' ''en-US''))
          - hashable_items (attributes (demo_result ''A'' ''ja-JP''))
   \<and> field_values ''title'' (stamped_formats (demo_result ''A'' ''ja-JP'') (demo_result ''B'' ''en-US''))
        = [Some (PStr ''Episode 1 (en-US)'')]
   \<and> field_values ''id'' (stamped_formats (demo_result ''A'' ''ja-JP'') (demo_result ''B'' ''en-US''))
        = [Some (PStr ''B'')]
   \<and> field_values ''series'' (stamped_formats (demo_result ''A'' ''ja-JP'') (demo_result ''B'' ''en-US''))
        = [None]
   \<and> field_values ''thumbnails'' (stamped_formats (demo_result ''A'' ''ja-JP'') (demo_result ''B'' ''en-US''))
        = [None]
   \<and> field_values ''title'' (version_formats (demo_result ''A'' ''ja-JP'')) = [None]"
proof -
  note T = diff_stamping [of demo_responses "''A''" "''A''" "Some ''ja-JP''"
      "[(''B'', Some ''en-US''), (''C'', Some ''de-DE'')]" demo_extract "''de/''"
      "demo_result ''A'' ''ja-JP''" "[demo_result ''B'' ''en-US'', demo_result ''C'' ''de-DE'']",
      OF demo_len demo_sel demo_base demo_others]
  have d: "version_differences (attributes (demo_result ''B'' ''en-US''))
      (attributes (demo_result ''A'' ''ja-JP'')) ''title'' = Some (PStr ''Episode 1 (en-US)'')"
    by (simp add: version_differences_def demo_result_def)
  from T have a: "\<exists>merged. extract_versions_and_merge_results ''de/'' ''A'' demo_responses demo_extract = Inr merged
        \<and> formats merged = Some (version_formats (demo_result ''A'' ''ja-JP'') @
             concat (map (stamped_formats (demo_result ''A'' ''ja-JP''))
                       [demo_result ''B'' ''en-US'', demo_result ''C'' ''de-DE'']))"
    by blast
  from T have "\<forall>key val.
      version_differences (attributes (demo_result ''B'' ''en-US''))
         (attributes (demo_result ''A'' ''ja-JP'')) key = Some val \<longleftrightarrow>
      (key, val) \<in> hashable_items (attributes (demo_result ''B'' ''en-US''))
          - hashable_items (attributes (demo_result ''A'' ''ja-JP''))"
    by auto
  with d have b: "(''title'', PStr ''Episode 1 (en-US)'')
        \<in> hashable_items (attributes (demo_result ''B'' ''en-US''))
          - hashable_items (attributes (demo_result ''A'' ''ja-JP''))"
    by blast
  have c: "field_values ''title'' (stamped_formats (demo_result ''A'' ''ja-JP'') (demo_result ''B'' ''en-US''))
        = [Some (PStr ''Episode 1 (en-US)'')]
   \<and> field_values ''id'' (stamped_formats (demo_result ''A'' ''ja-JP'') (demo_result ''B'' ''en-US''))
        = [Some (PStr ''B'')]
   \<and> field_values ''series'' (stamped_formats (demo_result ''A'' ''ja-JP'') (demo_result ''B'' ''en-US''))
        = [None]
   \<and> field_values ''thumbnails'' (stamped_formats (demo_result ''A'' ''ja-JP'') (demo_result ''B'' ''en-US''))
        = [None]
   \<and> field_values ''title'' (version_formats (demo_result ''A'' ''ja-JP'')) = [None]"
    by (simp add: field_values_def stamped_formats_def version_formats_def version_differences_def
        demo_result_def map_add_def)
  from demo_len demo_sel a b c show ?thesis by blast
qed


text \<open>
  Claim C7. Merging several versions, when every extraction succeeds: the formats of the
  other versions are appended to those of the main result, in the order of the dict, and
  the subtitles under a locale are those of the last version that has subtitles under it,
  or those of the main result when no other version has any.
\<close>

theorem formats_and_subtitles_merge:
  assumes len: "length responses \<noteq> 1"
    and sel: "select_main internal_id responses = Inr ((vid, vr), rest)"
    and base: "extract lang vid vr = Inr base"
    and others: "map (\<lambda>(vid, r). extract lang vid r) rest = map Inr versions"
  shows "\<exists>merged merged_subtitles.
       extract_versions_and_merge_results lang internal_id responses extract = Inr merged
     \<and> formats merged = Some (version_formats base @ concat (map (stamped_formats base) versions))
     \<and> subtitles merged = Some merged_subtitles
     \<and> (\<forall>locale. merged_subtitles locale =
          (case find (\<lambda>version. version_subtitles version locale \<noteq> None) (rev versions) of
             Some version \<Rightarrow> version_subtitles version locale
           | None \<Rightarrow> version_subtitles base locale))"
proof -
  have "\<forall>locale. foldl (++) (version_subtitles base) (map version_subtitles versions) locale =
          (case find (\<lambda>version. version_subtitles version locale \<noteq> None) (rev versions) of
             Some version \<Rightarrow> version_subtitles version locale
           | None \<Rightarrow> version_subtitles base locale)"
    by (simp add: foldl_version_subtitles)
  then show ?thesis
    by (simp add: merge_ok [of responses internal_id vid vr rest "extract" lang base versions, OF len sel base others])
qed


theorem formats_and_subtitles_merge_witness:
  "length demo_responses \<noteq> 1
   \<and> select_main ''A'' demo_responses =
       Inr ((''A'', Some ''ja-JP''), [(''B'', Some ''en-US''), (''C'', Some ''de-DE'')])
   \<and> (\<exists>merged merged_subtitles merged_formats.
        extract_versions_and_merge_results ''de/'' ''A'' demo_responses demo_extract = Inr merged
        \<and> formats merged = Some merged_formats
        \<and> field_values ''format_id'' merged_formats =
             [Some (PStr ''hls-ja-JP''), Some (PStr ''hls-en-US''), Some (PStr ''hls-de-DE'')]
        \<and> subtitles merged = Some merged_subtitles
        \<and> merged_subtitles ''en-US'' = Some (PStr ''subtitles of C''))"
proof -
  note T = formats_and_subtitles_merge [of demo_responses "''A''" "''A''" "Some ''ja-JP''"
      "[(''B'', Some ''en-US''), (''C'', Some ''de-DE'')]" demo_extract "''de/''"
      "demo_result ''A'' ''ja-JP''" "[demo_result ''B'' ''en-US'', demo_result ''C'' ''de-DE'']",
      OF demo_len demo_sel demo_base demo_others]
  then obtain merged merged_subtitles where
    m: "extract_versions_and_merge_results ''de/'' ''A'' demo_responses demo_extract = Inr merged"
    and f: "formats merged = Some (version_formats (demo_result ''A'' ''ja-JP'') @
        concat (map (stamped_formats (demo_result ''A'' ''ja-JP''))
          [demo_result ''B'' ''en-US'', demo_result ''C'' ''de-DE'']))"
    and s: "subtitles merged = Some merged_subtitles"
    and l: "\<forall>locale. merged_subtitles locale =
          (case find (\<lambda>version. version_subtitles version locale \<noteq> None)
                  (rev [demo_result ''B'' ''en-US'', demo_result ''C'' ''de-DE'']) of
             Some version \<Rightarrow> version_subtitles version locale
           | None \<Rightarrow> version_subtitles (demo_result ''A'' ''ja-JP'') locale)"
    by blast
  have fv: "field_values ''format_id'' (version_formats (demo_result ''A'' ''ja-JP'') @
        concat (map (stamped_formats (demo_result ''A'' ''ja-JP''))
          [demo_result ''B'' ''en-US'', demo_result ''C'' ''de-DE''])) =
      [Some (PStr ''hls-ja-JP''), Some (PStr ''hls-en-US''), Some (PStr ''hls-de-DE'')]"
    by (simp add: field_values_def stamped_formats_def version_formats_def version_differences_def
        demo_result_def map_add_def)
  from l have sv: "merged_subtitles ''en-US'' = Some (PStr ''subtitles of C'')"
    by (simp add: version_subtitles_def demo_result_def)
  from m f fv s sv have "\<exists>merged merged_subtitles merged_formats.
        extract_versions_and_merge_results ''de/'' ''A'' demo_responses demo_extract = Inr merged
        \<and> formats merged = Some merged_formats
        \<and> field_values ''format_id'' merged_formats =
             [Some (PStr ''hls-ja-JP''), Some (PStr ''hls-en-US''), Some (PStr ''hls-de-DE'')]
        \<and> subtitles merged = Some merged_subtitles
        \<and> merged_subtitles ''en-US'' = Some (PStr ''subtitles of C'')"
    by blast
  with demo_len demo_sel show ?thesis by blast
qed


end
